theory Spec2Isabelle
  imports Main "HOL-Library.Sublist"
begin

section \<open>The package initialiser of cli-mcp\<close>

text \<open>
  The whole executable content of \<^verbatim>\<open>src/cli_mcp/__init__.py\<close> is a docstring and one
  \<^verbatim>\<open>try\<close> statement:
  \<^verbatim>\<open>
  try:
      from importlib.metadata import version

      __version__ = version("cli-mcp")
  except Exception:
      __version__ = "dev"
  \<close>
  The embedding follows it statement by statement. The interpreter's part (what an import
  binds, how a raised exception leaves a \<^verbatim>\<open>try\<close> body, which classes an
  \<^verbatim>\<open>except Exception\<close> clause matches) is written out, since the program's
  behaviour consists of nothing else.
\<close>

subsection \<open>Exceptions\<close>

text \<open>
  A raised exception, by its class. Python's hierarchy has \<^verbatim>\<open>BaseException\<close> at the root;
  \<^verbatim>\<open>Exception\<close> is one of its subclasses, and \<^verbatim>\<open>KeyboardInterrupt\<close>,
  \<^verbatim>\<open>SystemExit\<close> and \<^verbatim>\<open>GeneratorExit\<close> are its siblings. The two \<open>Other\<close>
  constructors stand for every further class on either side, by class name.
\<close>

datatype py_exc =
    ModuleNotFoundError
  | ImportError
  | PackageNotFoundError
  | NameError
  | TypeError
  | OtherException string
  | KeyboardInterrupt
  | SystemExit
  | GeneratorExit
  | OtherBaseException string

text \<open>\<^verbatim>\<open>isinstance(e, Exception)\<close>: the test an \<^verbatim>\<open>except Exception\<close> clause makes.\<close>

fun isinstance_Exception :: "py_exc \<Rightarrow> bool" where
  "isinstance_Exception ModuleNotFoundError = True"
| "isinstance_Exception ImportError = True"
| "isinstance_Exception PackageNotFoundError = True"
| "isinstance_Exception NameError = True"
| "isinstance_Exception TypeError = True"
| "isinstance_Exception (OtherException c) = True"
| "isinstance_Exception KeyboardInterrupt = False"
| "isinstance_Exception SystemExit = False"
| "isinstance_Exception GeneratorExit = False"
| "isinstance_Exception (OtherBaseException c) = False"

subsection \<open>The metadata provider\<close>

text \<open>What one call into the environment does: it returns a value or raises.\<close>

datatype 'a outcome = Returns 'a | Raises py_exc

text \<open>
  \<^verbatim>\<open>importlib.metadata.version\<close> takes a distribution name and returns its version string.
  The provider is what \<^verbatim>\<open>from importlib.metadata import version\<close> does in the environment
  at hand: it hands over that function, or the import raises.
\<close>

type_synonym version_fn = "string \<Rightarrow> string outcome"

type_synonym provider = "version_fn outcome"

subsection \<open>Module state\<close>

datatype pyval = PStr string | PFunc version_fn

type_synonym namespace = "string \<rightharpoonup> pyval"

text \<open>
  The effects of the module body, in the order in which they happen: the import, a call of
  the metadata lookup with its argument, a store to a module global, the entry into the
  \<^verbatim>\<open>except\<close> handler.
\<close>

datatype event =
    Import_metadata
  | Metadata_read string
  | Store string
  | Caught py_exc

record mstate =
  globals :: namespace
  events :: "event list"

text \<open>
  A statement completes, or an exception leaves it; the state reached so far is kept in
  both cases.
\<close>

datatype result = Completed mstate | Propagated py_exc mstate

fun final_state :: "result \<Rightarrow> mstate" where
  "final_state (Completed s) = s"
| "final_state (Propagated e s) = s"

definition emit :: "event \<Rightarrow> mstate \<Rightarrow> mstate" where
  "emit ev s = s\<lparr>events := events s @ [ev]\<rparr>"

definition store :: "string \<Rightarrow> pyval \<Rightarrow> mstate \<Rightarrow> mstate" where
  "store x v s = emit (Store x) (s\<lparr>globals := (globals s)(x \<mapsto> v)\<rparr>)"

subsection \<open>The statements\<close>

text \<open>\<^verbatim>\<open>from importlib.metadata import version\<close>: binds the global \<^verbatim>\<open>version\<close>, or raises.\<close>

definition import_stmt :: "provider \<Rightarrow> mstate \<Rightarrow> result" where
  "import_stmt prov s =
     (let s1 = emit Import_metadata s in
      case prov of
        Raises e \<Rightarrow> Propagated e s1
      | Returns f \<Rightarrow> Completed (store ''version'' (PFunc f) s1))"

text \<open>
  The call \<^verbatim>\<open>version(name)\<close>: the global \<^verbatim>\<open>version\<close> is looked up and called. An
  unbound name raises \<^verbatim>\<open>NameError\<close>, a string is not callable (\<^verbatim>\<open>TypeError\<close>).
\<close>

definition call_version :: "string \<Rightarrow> mstate \<Rightarrow> string outcome \<times> mstate" where
  "call_version name s =
     (case globals s ''version'' of
        None \<Rightarrow> (Raises NameError, s)
      | Some (PStr _) \<Rightarrow> (Raises TypeError, s)
      | Some (PFunc f) \<Rightarrow> (f name, emit (Metadata_read name) s))"

text \<open>
  \<^verbatim>\<open>__version__ = version("cli-mcp")\<close>: the right-hand side is evaluated first; when it
  raises, nothing is stored.
\<close>

definition assign_stmt :: "mstate \<Rightarrow> result" where
  "assign_stmt s =
     (case call_version ''cli-mcp'' s of
        (Raises e, s1) \<Rightarrow> Propagated e s1
      | (Returns v, s1) \<Rightarrow> Completed (store ''__version__'' (PStr v) s1))"

text \<open>The body of the \<^verbatim>\<open>try\<close>: the two statements in sequence.\<close>

definition try_body :: "provider \<Rightarrow> mstate \<Rightarrow> result" where
  "try_body prov s =
     (case import_stmt prov s of
        Propagated e s1 \<Rightarrow> Propagated e s1
      | Completed s1 \<Rightarrow> assign_stmt s1)"

text \<open>
  The whole \<^verbatim>\<open>try ... except Exception\<close> statement: an exception leaving the body
  enters the handler when it is an instance of \<^verbatim>\<open>Exception\<close>, and goes on propagating
  otherwise.
\<close>

definition resolve_version :: "provider \<Rightarrow> mstate \<Rightarrow> result" where
  "resolve_version prov s =
     (case try_body prov s of
        Completed s1 \<Rightarrow> Completed s1
      | Propagated e s1 \<Rightarrow>
          if isinstance_Exception e
          then Completed (store ''__version__'' (PStr ''dev'') (emit (Caught e) s1))
          else Propagated e s1)"

text \<open>The value of \<^verbatim>\<open>__version__\<close> a run leaves behind, when it completes with one.\<close>

fun resolved_version :: "result \<Rightarrow> string option" where
  "resolved_version (Completed s) =
     (case globals s ''__version__'' of Some (PStr v) \<Rightarrow> Some v | _ \<Rightarrow> None)"
| "resolved_version (Propagated e s) = None"

text \<open>The exception a run lets out, if any.\<close>

fun raised :: "result \<Rightarrow> py_exc option" where
  "raised (Completed s) = None"
| "raised (Propagated e s) = Some e"

text \<open>The names a trace asked the metadata lookup for.\<close>

fun metadata_reads :: "event list \<Rightarrow> string list" where
  "metadata_reads [] = []"
| "metadata_reads (Metadata_read name # evs) = name # metadata_reads evs"
| "metadata_reads (ev # evs) = metadata_reads evs"

subsection \<open>Running the statement again\<close>

text \<open>
  \<open>n\<close> runs of the statement in a row, each on the state the one before left; a run that
  lets an exception out ends the sequence, as it would end the caller.
\<close>

fun rerun :: "provider \<Rightarrow> nat \<Rightarrow> mstate \<Rightarrow> result" where
  "rerun prov 0 s = Completed s"
| "rerun prov (Suc n) s =
     (case resolve_version prov s of
        Completed s1 \<Rightarrow> rerun prov n s1
      | Propagated e s1 \<Rightarrow> Propagated e s1)"

text \<open>What a caller observes of the version: the exception let out, or the binding left.\<close>

fun version_outcome :: "result \<Rightarrow> py_exc + pyval option" where
  "version_outcome (Completed s) = Inr (globals s ''__version__'')"
| "version_outcome (Propagated e s) = Inl e"

subsection \<open>The package in a process\<close>

text \<open>
  The namespace the interpreter hands to the module body: the module's name, and the
  docstring of line 1.
\<close>

definition fresh_namespace :: namespace where
  "fresh_namespace =
     [''__name__'' \<mapsto> PStr ''cli_mcp'',
      ''__doc__'' \<mapsto> PStr
        ''cli-mcp: A modern Python CLI tool for MCP (Model Context Protocol) server management.'']"

definition fresh_state :: mstate where
  "fresh_state = \<lparr>globals = fresh_namespace, events = []\<rparr>"










subsection \<open>The command line\<close>

datatype run_outcome = Exit int string | Uncaught py_exc | Unspecified

text \<open>
  Modelled from the spec: the entry point \<^verbatim>\<open>cli_mcp/__main__.py\<close> is not among the source
  files (only \<^verbatim>\<open>tests/test_main.py\<close>, which runs it, is). The specification says of it
  that with the flag \<^verbatim>\<open>--version\<close> it exits with status 0 and prints to standard output a
  line with \<^verbatim>\<open>cli-mcp version:\<close> followed by the resolved version, \<^verbatim>\<open>cli-mcp version: dev\<close>
  under the fallback; it says nothing of other arguments. The first component of
  \<open>Exit\<close> is the status, the second what was written to standard output.
\<close>

definition main_entry :: "string \<Rightarrow> string list \<Rightarrow> run_outcome" where
  "main_entry ver argv =
     (if argv = [''--version'']
      then Exit 0 (''cli-mcp version: '' @ ver @ [CHR 0x0A])
      else Unspecified)"

text \<open>
  Modelled from the spec: that the version the missing entry point prints is the resolved
  version of the package, \<^verbatim>\<open>__version__\<close>. The rest is \<^verbatim>\<open>python -m cli_mcp argv\<close> as the
  interpreter runs it: first the package initialiser of \<^verbatim>\<open>__init__.py\<close>, then the entry
  point; an exception the initialiser lets out ends the process before the entry point
  starts.
\<close>

definition run_module :: "provider \<Rightarrow> string list \<Rightarrow> run_outcome" where
  "run_module prov argv =
     (case resolve_version prov fresh_state of
        Propagated e s \<Rightarrow> Uncaught e
      | Completed s \<Rightarrow>
          (case globals s ''__version__'' of
             Some (PStr v) \<Rightarrow> main_entry v argv
           | _ \<Rightarrow> Unspecified))"

subsection \<open>Sample providers\<close>

text \<open>The package is installed with version \<open>v\<close>; no other distribution is.\<close>

definition installed :: "string \<Rightarrow> provider" where
  "installed v =
     Returns (\<lambda>name. if name = ''cli-mcp'' then Returns v else Raises PackageNotFoundError)"

text \<open>The import succeeds and every lookup raises \<open>e\<close>.\<close>

definition lookup_raises :: "py_exc \<Rightarrow> provider" where
  "lookup_raises e = Returns (\<lambda>name. Raises e)"

text \<open>The import itself raises \<open>e\<close>.\<close>

definition import_raises :: "py_exc \<Rightarrow> provider" where
  "import_raises e = Raises e"

definition empty_state :: mstate where
  "empty_state = \<lparr>globals = Map.empty, events = []\<rparr>"

section \<open>Properties\<close>

subsection \<open>The runs of the statement\<close>

lemma resolve_version_import_raises:
  "resolve_version (Raises e) s =
     (if isinstance_Exception e
      then Completed (store ''__version__'' (PStr ''dev'') (emit (Caught e) (emit Import_metadata s)))
      else Propagated e (emit Import_metadata s))"
  by (simp add: resolve_version_def try_body_def import_stmt_def)

lemma call_version_after_import:
  "call_version name (store ''version'' (PFunc f) s) =
     (f name, emit (Metadata_read name) (store ''version'' (PFunc f) s))"
  by (simp add: call_version_def store_def emit_def)

lemma resolve_version_lookup_returns:
  "f ''cli-mcp'' = Returns v \<Longrightarrow>
   resolve_version (Returns f) s =
     Completed (store ''__version__'' (PStr v)
       (emit (Metadata_read ''cli-mcp'') (store ''version'' (PFunc f) (emit Import_metadata s))))"
  by (simp add: resolve_version_def try_body_def import_stmt_def assign_stmt_def
      call_version_after_import)

lemma resolve_version_lookup_raises:
  "f ''cli-mcp'' = Raises e \<Longrightarrow>
   resolve_version (Returns f) s =
     (if isinstance_Exception e
      then Completed (store ''__version__'' (PStr ''dev'') (emit (Caught e)
             (emit (Metadata_read ''cli-mcp'') (store ''version'' (PFunc f) (emit Import_metadata s)))))
      else Propagated e
             (emit (Metadata_read ''cli-mcp'') (store ''version'' (PFunc f) (emit Import_metadata s))))"
  by (simp add: resolve_version_def try_body_def import_stmt_def assign_stmt_def
      call_version_after_import)

lemma globals_emit: "globals (emit ev s) = globals s"
  by (simp add: emit_def)

lemma globals_store: "globals (store x v s) = (globals s)(x \<mapsto> v)"
  by (simp add: store_def emit_def)

lemma events_emit: "events (emit ev s) = events s @ [ev]"
  by (simp add: emit_def)

lemma events_store: "events (store x v s) = events s @ [Store x]"
  by (simp add: store_def emit_def)

lemma metadata_reads_append:
  "metadata_reads (xs @ ys) = metadata_reads xs @ metadata_reads ys"
  by (induction xs rule: metadata_reads.induct) simp_all

subsection \<open>The fallback\<close>

text \<open>
  C1, as amended. For every provider whose lookup of \<^verbatim>\<open>"cli-mcp"\<close> raises an error that
  is an instance of \<^verbatim>\<open>Exception\<close>, the statement completes and \<^verbatim>\<open>__version__\<close> is
  the literal \<^verbatim>\<open>"dev"\<close>, from whatever module state it started.
\<close>

theorem fallback_on_exception:
  "prov = Returns f \<Longrightarrow> f ''cli-mcp'' = Raises e \<Longrightarrow> isinstance_Exception e \<Longrightarrow>
   (\<exists>s'. resolve_version prov s = Completed s' \<and> globals s' ''__version__'' = Some (PStr ''dev''))
   \<and> resolved_version (resolve_version prov s) = Some ''dev''"
  by (simp add: resolve_version_lookup_raises globals_store)

theorem fallback_on_exception_witness:
  "(\<exists>s'. resolve_version (lookup_raises PackageNotFoundError) empty_state = Completed s'
        \<and> globals s' ''__version__'' = Some (PStr ''dev''))
   \<and> resolved_version (resolve_version (lookup_raises PackageNotFoundError) empty_state)
       = Some ''dev''"
  using fallback_on_exception
    [of "lookup_raises PackageNotFoundError" _ PackageNotFoundError empty_state]
  by (simp add: lookup_raises_def)

text \<open>
  C1 as stated, for every raised error, fails: a lookup interrupted from the keyboard
  raises \<^verbatim>\<open>KeyboardInterrupt\<close>, which the clause \<^verbatim>\<open>except Exception\<close> does not match;
  the version is not \<^verbatim>\<open>"dev"\<close>, the global is not bound at all.
\<close>

theorem fallback_every_error_counterexample:
  "resolved_version (resolve_version (lookup_raises KeyboardInterrupt) empty_state) \<noteq> Some ''dev''
   \<and> globals (final_state (resolve_version (lookup_raises KeyboardInterrupt) empty_state))
        ''__version__'' = None"
  by (simp add: lookup_raises_def resolve_version_lookup_raises empty_state_def
      globals_emit globals_store)

subsection \<open>Success\<close>

text \<open>
  C2. For every string \<open>v\<close>: when the import hands over the lookup function and the lookup
  of \<^verbatim>\<open>"cli-mcp"\<close> returns \<open>v\<close>, the statement completes and \<^verbatim>\<open>__version__\<close> is \<open>v\<close>,
  from whatever module state it started.
\<close>

theorem success_sets_version:
  "prov = Returns f \<Longrightarrow> f ''cli-mcp'' = Returns v \<Longrightarrow>
   (\<exists>s'. resolve_version prov s = Completed s' \<and> globals s' ''__version__'' = Some (PStr v))
   \<and> resolved_version (resolve_version prov s) = Some v"
  by (simp add: resolve_version_lookup_returns globals_store)

theorem success_sets_version_witness:
  "(\<exists>s'. resolve_version (installed ''0.1.0'') empty_state = Completed s'
        \<and> globals s' ''__version__'' = Some (PStr ''0.1.0''))
   \<and> resolved_version (resolve_version (installed ''0.1.0'') empty_state) = Some ''0.1.0''"
  using success_sets_version [of "installed ''0.1.0''" _ "''0.1.0''" empty_state]
  by (simp add: installed_def)

subsection \<open>Absorbing the error\<close>




subsection \<open>The command line\<close>

text \<open>
  The initialiser lets no exception out exactly when it leaves a resolved version.
\<close>

lemma completed_has_version:
  "(raised (resolve_version prov s) = None)
     = (\<exists>v. resolved_version (resolve_version prov s) = Some v)"
proof (cases prov)
  case (Raises e)
  then show ?thesis
    by (simp add: resolve_version_import_raises globals_store)
next
  case (Returns f)
  then show ?thesis
    by (cases "f ''cli-mcp''")
      (simp_all add: resolve_version_lookup_returns resolve_version_lookup_raises globals_store)
qed

text \<open>
  C4, as amended. Whenever the package initialiser completes with resolved version \<open>v\<close>
  (no exception outside \<^verbatim>\<open>Exception\<close> leaves it), running the module with the single
  argument \<^verbatim>\<open>--version\<close> exits with status 0, and standard output is the line
  \<^verbatim>\<open>cli-mcp version: v\<close>: it contains \<^verbatim>\<open>cli-mcp version:\<close>, followed by \<open>v\<close>.
\<close>

theorem cli_version_line:
  "resolved_version (resolve_version prov fresh_state) = Some v \<Longrightarrow>
   run_module prov [''--version''] = Exit 0 (''cli-mcp version: '' @ v @ [CHR 0x0A])
   \<and> (\<exists>out. run_module prov [''--version''] = Exit 0 out
          \<and> sublist (''cli-mcp version:'') out \<and> sublist (''cli-mcp version: '' @ v) out)"
proof -
  assume resolved: "resolved_version (resolve_version prov fresh_state) = Some v"
  then obtain s where completed: "resolve_version prov fresh_state = Completed s"
    by (cases "resolve_version prov fresh_state") simp_all
  with resolved have bound: "globals s ''__version__'' = Some (PStr v)"
    by (simp split: option.splits pyval.splits)
  have run: "run_module prov [''--version''] = Exit 0 (''cli-mcp version: '' @ v @ [CHR 0x0A])"
    by (simp add: run_module_def completed bound main_entry_def)
  have "sublist (''cli-mcp version:'') ([] @ ''cli-mcp version:'' @ (CHR '' '' # v @ [CHR 0x0A]))"
    by (rule sublist_appendI)
  moreover
  have "sublist (''cli-mcp version: '' @ v) ([] @ (''cli-mcp version: '' @ v) @ [CHR 0x0A])"
    by (rule sublist_appendI)
  ultimately show ?thesis
    using run by simp
qed

theorem cli_version_line_witness:
  "run_module (installed ''0.1.0'') [''--version''] = Exit 0 ''cli-mcp version: 0.1.0\<newline>''
   \<and> (\<exists>out. run_module (installed ''0.1.0'') [''--version''] = Exit 0 out
          \<and> sublist (''cli-mcp version:'') out \<and> sublist (''cli-mcp version: 0.1.0'') out)"
  using cli_version_line [of "installed ''0.1.0''" "''0.1.0''"]
  by (simp add: installed_def resolve_version_lookup_returns globals_store)

text \<open>
  C4 as stated, for every run with \<^verbatim>\<open>--version\<close>, fails: when the lookup is interrupted
  from the keyboard, \<^verbatim>\<open>KeyboardInterrupt\<close> leaves the initialiser and the process ends on
  it, with no version line and not with status 0.
\<close>

theorem cli_version_every_run_counterexample:
  "run_module (lookup_raises KeyboardInterrupt) [''--version''] = Uncaught KeyboardInterrupt"
  by (simp add: run_module_def lookup_raises_def resolve_version_lookup_raises)

text \<open>
  C5, as amended. When the lookup raises an error that is an instance of \<^verbatim>\<open>Exception\<close>,
  running the module with \<^verbatim>\<open>--version\<close> exits with status 0 and prints
  \<^verbatim>\<open>cli-mcp version: dev\<close>.
\<close>

theorem cli_fallback_line:
  "prov = Returns f \<Longrightarrow> f ''cli-mcp'' = Raises e \<Longrightarrow> isinstance_Exception e \<Longrightarrow>
   run_module prov [''--version''] = Exit 0 ''cli-mcp version: dev\<newline>''"
  by (simp add: run_module_def resolve_version_lookup_raises globals_store main_entry_def)

theorem cli_fallback_line_witness:
  "run_module (lookup_raises PackageNotFoundError) [''--version'']
     = Exit 0 ''cli-mcp version: dev\<newline>''"
  using cli_fallback_line [of "lookup_raises PackageNotFoundError" _ PackageNotFoundError]
  by (simp add: lookup_raises_def)

text \<open>
  C5 as stated, for every way the lookup raises, fails: an exception of a class outside
  \<^verbatim>\<open>Exception\<close> (here \<^verbatim>\<open>asyncio.CancelledError\<close>) leaves the initialiser, and the
  process ends on it before anything is printed.
\<close>

theorem cli_fallback_counterexample:
  "run_module (lookup_raises (OtherBaseException ''CancelledError'')) [''--version'']
     = Uncaught (OtherBaseException ''CancelledError'')"
  by (simp add: run_module_def lookup_raises_def resolve_version_lookup_raises)

subsection \<open>Running the statement again\<close>

text \<open>
  What a run leaves in \<^verbatim>\<open>__version__\<close>, or lets out, is a function of the provider
  alone: the state the run starts from does not enter.
\<close>

lemma version_outcome_resolve:
  "version_outcome (resolve_version prov s) =
     (case prov of
        Raises e \<Rightarrow> if isinstance_Exception e then Inr (Some (PStr ''dev'')) else Inl e
      | Returns f \<Rightarrow>
          (case f ''cli-mcp'' of
             Returns v \<Rightarrow> Inr (Some (PStr v))
           | Raises e \<Rightarrow> if isinstance_Exception e then Inr (Some (PStr ''dev'')) else Inl e))"
proof (cases prov)
  case (Raises e)
  then show ?thesis
    by (simp add: resolve_version_import_raises globals_store)
next
  case (Returns f)
  then show ?thesis
    by (cases "f ''cli-mcp''")
      (simp_all add: resolve_version_lookup_returns resolve_version_lookup_raises globals_store)
qed

lemma version_outcome_independent:
  "version_outcome (resolve_version prov s) = version_outcome (resolve_version prov s')"
  by (simp add: version_outcome_resolve)

text \<open>
  C6. For every provider behaviour, fixed over the runs, any number \<open>n + 1\<close> of runs in a
  row, started from any module state \<open>s\<close>, ends with the same observable outcome (the
  same \<^verbatim>\<open>__version__\<close>, or the same exception let out) as one run started from any other
  state \<open>s'\<close>: nothing a run leaves behind affects the next.
\<close>

theorem rerun_same_outcome:
  "version_outcome (rerun prov (Suc n) s) = version_outcome (resolve_version prov s')"
proof (induction n arbitrary: s)
  case 0
  show ?case
    using version_outcome_independent [of prov s s']
    by (cases "resolve_version prov s") simp_all
next
  case (Suc n)
  show ?case
  proof (cases "resolve_version prov s")
    case (Completed s1)
    then have "rerun prov (Suc (Suc n)) s = rerun prov (Suc n) s1"
      by simp
    then show ?thesis
      using Suc.IH [of s1] by simp
  next
    case (Propagated e s1)
    then have "version_outcome (rerun prov (Suc (Suc n)) s)
        = version_outcome (resolve_version prov s)"
      by simp
    then show ?thesis
      using version_outcome_independent [of prov s s'] by simp
  qed
qed

subsection \<open>Assigned once\<close>









subsection \<open>The frame\<close>

text \<open>
  C8, as amended. A run of the statement changes no module global other than
  \<^verbatim>\<open>__version__\<close> and the imported name \<^verbatim>\<open>version\<close>, and leaves \<^verbatim>\<open>version\<close> as it was
  when the import raises; it keeps the effects before it, and what it adds holds one
  metadata read, of \<^verbatim>\<open>"cli-mcp"\<close>, when the import succeeds and none when it raises.
\<close>

theorem resolver_frame:
  "(\<forall>x. x \<noteq> ''__version__'' \<and> x \<noteq> ''version'' \<longrightarrow>
        globals (final_state (resolve_version prov s)) x = globals s x)
   \<and> (\<forall>e. prov = Raises e \<longrightarrow>
        globals (final_state (resolve_version prov s)) ''version'' = globals s ''version'')
   \<and> (\<exists>evs. events (final_state (resolve_version prov s)) = events s @ evs
        \<and> metadata_reads evs = (case prov of Returns f \<Rightarrow> [''cli-mcp''] | Raises e \<Rightarrow> []))"
proof (cases prov)
  case (Raises e)
  then show ?thesis
    by (simp add: resolve_version_import_raises globals_store globals_emit
        events_emit events_store)
next
  case (Returns f)
  then show ?thesis
    by (cases "f ''cli-mcp''")
      (simp_all add: resolve_version_lookup_returns resolve_version_lookup_raises
        globals_store globals_emit events_emit events_store)
qed

theorem resolver_frame_witness:
  "globals (final_state (resolve_version (installed ''0.1.0'') fresh_state)) ''__doc__''
     = globals fresh_state ''__doc__''
   \<and> globals (final_state (resolve_version (import_raises ImportError) fresh_state)) ''version''
     = globals fresh_state ''version''"
  using resolver_frame [of "installed ''0.1.0''" fresh_state]
    resolver_frame [of "import_raises ImportError" fresh_state]
  by (simp add: import_raises_def)

text \<open>
  C8 as stated, with \<^verbatim>\<open>__version__\<close> the only change, fails: when the import succeeds
  the module global \<^verbatim>\<open>version\<close>, unbound before, holds the imported function after.
\<close>

theorem resolver_frame_counterexample:
  "globals (final_state (resolve_version (installed ''0.1.0'') fresh_state)) ''version''
     \<noteq> globals fresh_state ''version''"
  by (simp add: installed_def resolve_version_lookup_returns globals_store globals_emit
      fresh_state_def fresh_namespace_def)

subsection \<open>The extent of the guard\<close>

text \<open>
  C9, as amended. The import is inside the guarded region: when it raises an error that is
  an instance of \<^verbatim>\<open>Exception\<close> (\<^verbatim>\<open>ModuleNotFoundError\<close> for an absent module), the
  statement completes with \<^verbatim>\<open>__version__\<close> set to \<^verbatim>\<open>"dev"\<close>; \<^verbatim>\<open>version\<close> is not
  rebound and the lookup is never called.
\<close>

theorem import_failure_guarded:
  "prov = Raises e \<Longrightarrow> isinstance_Exception e \<Longrightarrow>
   (\<exists>s'. resolve_version prov s = Completed s'
        \<and> globals s' ''__version__'' = Some (PStr ''dev'')
        \<and> globals s' ''version'' = globals s ''version''
        \<and> metadata_reads (events s') = metadata_reads (events s))"
  by (simp add: resolve_version_import_raises globals_store globals_emit events_emit
      events_store metadata_reads_append)

theorem import_failure_guarded_witness:
  "\<exists>s'. resolve_version (import_raises ModuleNotFoundError) fresh_state = Completed s'
        \<and> globals s' ''__version__'' = Some (PStr ''dev'')
        \<and> globals s' ''version'' = globals fresh_state ''version''
        \<and> metadata_reads (events s') = metadata_reads (events fresh_state)"
  using import_failure_guarded
    [of "import_raises ModuleNotFoundError" ModuleNotFoundError fresh_state]
  by (simp add: import_raises_def)

text \<open>
  C9 as stated, for every failure of the import, fails: an import interrupted from the
  keyboard raises \<^verbatim>\<open>KeyboardInterrupt\<close>, which leaves the statement; \<^verbatim>\<open>__version__\<close> is
  not set.
\<close>

theorem import_failure_counterexample:
  "raised (resolve_version (import_raises KeyboardInterrupt) fresh_state) = Some KeyboardInterrupt
   \<and> globals (final_state (resolve_version (import_raises KeyboardInterrupt) fresh_state))
        ''__version__'' \<noteq> Some (PStr ''dev'')"
  by (simp add: import_raises_def resolve_version_import_raises globals_emit fresh_state_def
      fresh_namespace_def)

text \<open>
  C10. The guard handles exactly the instances of \<^verbatim>\<open>Exception\<close>: when the lookup raises
  \<open>e\<close>, the statement completes if and only if \<open>e\<close> is one; an \<open>e\<close> that is not leaves
  the statement as it was raised, \<^verbatim>\<open>__version__\<close> is what it was before and no store to it
  has happened.
\<close>

theorem guard_is_exactly_Exception:
  "prov = Returns f \<Longrightarrow> f ''cli-mcp'' = Raises e \<Longrightarrow>
   (raised (resolve_version prov s) = None) = isinstance_Exception e
   \<and> (\<not> isinstance_Exception e \<longrightarrow>
        raised (resolve_version prov s) = Some e
        \<and> globals (final_state (resolve_version prov s)) ''__version__'' = globals s ''__version__''
        \<and> count_list (events (final_state (resolve_version prov s))) (Store ''__version__'')
            = count_list (events s) (Store ''__version__''))"
  by (simp add: resolve_version_lookup_raises globals_store globals_emit events_emit events_store)

theorem guard_is_exactly_Exception_witness:
  "(raised (resolve_version (lookup_raises GeneratorExit) fresh_state) = None)
     = isinstance_Exception GeneratorExit
   \<and> raised (resolve_version (lookup_raises GeneratorExit) fresh_state) = Some GeneratorExit
   \<and> globals (final_state (resolve_version (lookup_raises GeneratorExit) fresh_state))
        ''__version__'' = None"
  using guard_is_exactly_Exception [of "lookup_raises GeneratorExit" _ GeneratorExit fresh_state]
  by (simp add: lookup_raises_def fresh_state_def fresh_namespace_def)

end
